theory Spec2Isabelle
  imports Main "HOL-Library.Word"
begin

unbundle bit_operations_syntax

section \<open>Data of the hash database layer (tsk\_hashdb.c)\<close>

text \<open>
  The database type tag. The seven enumerators are the ones the \<^verbatim>\<open>switch\<close> of
  \<^verbatim>\<open>tsk_hdb_open\<close> lists.
\<close>

datatype TSK_HDB_DBTYPE_ENUM =
    TSK_HDB_DBTYPE_NSRL_ID
  | TSK_HDB_DBTYPE_MD5SUM_ID
  | TSK_HDB_DBTYPE_HK_ID
  | TSK_HDB_DBTYPE_IDXONLY_ID
  | TSK_HDB_DBTYPE_ENCASE_ID
  | TSK_HDB_DBTYPE_SQLITE_ID
  | TSK_HDB_DBTYPE_INVALID_ID

text \<open>
  The error kinds this file reports; \<open>TSK_ERR_OTHER\<close> stands for the codes that only
  the backends and the allocator use.
\<close>

datatype TSK_ERR =
    TSK_ERR_HDB_UNKTYPE
  | TSK_ERR_HDB_ARG
  | TSK_ERR_HDB_OPEN
  | TSK_ERR_HDB_PROC
  | TSK_ERR_OTHER nat

text \<open>
  Enumerations and pointers that this file only hands through to a backend: the hash
  type, the lookup flags, the open flags (C \<^verbatim>\<open>int\<close>-sized enums), and opaque pointers
  (the lookup callback, its \<^verbatim>\<open>void *\<close> argument, the verbose result), where \<open>None\<close>
  is \<^verbatim>\<open>NULL\<close>. An \<^verbatim>\<open>int8_t\<close> is read with \<open>sint\<close>: \<open>-1\<close> is the word 255.
\<close>

type_synonym uint8_t = "8 word"
type_synonym int8_t = "8 word"
type_synonym TSK_HDB_HTYPE_ENUM = "32 word"
type_synonym TSK_HDB_FLAG_ENUM = "32 word"
type_synonym TSK_HDB_OPEN_ENUM = "32 word"
type_synonym pointer = "nat option"

text \<open>
  Everything outside the handle that a call can change: the process-wide error state
  (\<open>t_errno\<close>, \<open>errstr\<close>), the \<^verbatim>\<open>FILE\<close> streams that are open (by the path each was opened
  on; a list, since one path can be open twice), the number of live heap blocks, and the
  data \<open>store\<close> of the backend, of a type \<open>'b\<close> this file knows nothing about.
\<close>

record 'b world =
  t_errno :: "TSK_ERR option"
  errstr :: string
  streams :: "string list"
  blocks :: nat
  store :: 'b

text \<open>
  An open stream: the path it was opened on, the bytes of the file and the position.
\<close>

record FILE =
  name :: string
  contents :: string
  pos :: nat

text \<open>
  The handle \<^verbatim>\<open>TSK_HDB_INFO\<close>, as far as this file reads it: the type tag, the
  transaction flag and the table of backend functions. The flag is only ever tested for
  zero and set to 0 or 1, so it is a \<open>bool\<close>. A backend function gets the world and
  returns its result with the new world; it is taken to keep its hands off the tag, the
  flag and the table, which only the functions of this file write. The two functions of
  no argument (\<^verbatim>\<open>uses_external_indexes()\<close>, \<^verbatim>\<open>accepts_updates()\<close>) are the value they
  return. The five pointers the file tests against \<^verbatim>\<open>NULL\<close> are options; the others are
  called unchecked and are functions.
\<close>

record 'b TSK_HDB_INFO =
  db_type :: TSK_HDB_DBTYPE_ENUM
  transaction_in_progress :: bool
  get_db_path :: "'b world \<Rightarrow> string option \<times> 'b world"
  get_display_name :: "'b world \<Rightarrow> string option \<times> 'b world"
  uses_external_indexes :: uint8_t
  get_index_path :: "TSK_HDB_HTYPE_ENUM \<Rightarrow> 'b world \<Rightarrow> string option \<times> 'b world"
  open_index :: "TSK_HDB_HTYPE_ENUM \<Rightarrow> 'b world \<Rightarrow> uint8_t \<times> 'b world"
  make_index :: "string option \<Rightarrow> 'b world \<Rightarrow> uint8_t \<times> 'b world"
  lookup_str ::
    "string option \<Rightarrow> TSK_HDB_FLAG_ENUM \<Rightarrow> pointer \<Rightarrow> pointer \<Rightarrow> 'b world \<Rightarrow> int8_t \<times> 'b world"
  lookup_raw ::
    "uint8_t list option \<Rightarrow> uint8_t \<Rightarrow> TSK_HDB_FLAG_ENUM \<Rightarrow> pointer \<Rightarrow> pointer \<Rightarrow> 'b world
      \<Rightarrow> int8_t \<times> 'b world"
  lookup_verbose_str :: "string \<Rightarrow> nat \<Rightarrow> 'b world \<Rightarrow> int8_t \<times> 'b world"
  accepts_updates :: "uint8_t option"
  add_entry ::
    "(string option \<Rightarrow> string option \<Rightarrow> string option \<Rightarrow> string option \<Rightarrow> string option
      \<Rightarrow> 'b world \<Rightarrow> uint8_t \<times> 'b world) option"
  begin_transaction :: "('b world \<Rightarrow> uint8_t \<times> 'b world) option"
  commit_transaction :: "('b world \<Rightarrow> uint8_t \<times> 'b world) option"
  rollback_transaction :: "('b world \<Rightarrow> uint8_t \<times> 'b world) option"
  close_db :: "'b world \<Rightarrow> 'b world"

text \<open>
  What \<^verbatim>\<open>tsk_hashdb.c\<close> calls and does not define, taken as parameters: the file system
  (\<open>files p\<close> is the contents of the file that \<^verbatim>\<open>fopen(p, "rb")\<close> opens, \<open>None\<close> when it
  fails), whether the allocator finds memory, the bit \<^verbatim>\<open>TSK_HDB_OPEN_IDXONLY\<close>, the five
  format tests and the six backend constructors. A format test reads the stream: it
  returns its verdict and the position it leaves the stream at.
\<close>

record 'b hdb_env =
  files :: "string \<Rightarrow> string option"
  memory_left :: bool
  TSK_HDB_OPEN_IDXONLY :: TSK_HDB_OPEN_ENUM
  sqlite_hdb_is_sqlite_file :: "FILE \<Rightarrow> uint8_t \<times> nat"
  nsrl_test :: "FILE \<Rightarrow> uint8_t \<times> nat"
  md5sum_test :: "FILE \<Rightarrow> uint8_t \<times> nat"
  encase_test :: "FILE \<Rightarrow> uint8_t \<times> nat"
  hk_test :: "FILE \<Rightarrow> uint8_t \<times> nat"
  nsrl_open :: "FILE option \<Rightarrow> string \<Rightarrow> 'b world \<Rightarrow> 'b TSK_HDB_INFO option \<times> 'b world"
  md5sum_open :: "FILE option \<Rightarrow> string \<Rightarrow> 'b world \<Rightarrow> 'b TSK_HDB_INFO option \<times> 'b world"
  encase_open :: "FILE option \<Rightarrow> string \<Rightarrow> 'b world \<Rightarrow> 'b TSK_HDB_INFO option \<times> 'b world"
  hk_open :: "FILE option \<Rightarrow> string \<Rightarrow> 'b world \<Rightarrow> 'b TSK_HDB_INFO option \<times> 'b world"
  idxonly_open :: "string \<Rightarrow> 'b world \<Rightarrow> 'b TSK_HDB_INFO option \<times> 'b world"
  sqlite_hdb_open :: "string \<Rightarrow> 'b world \<Rightarrow> 'b TSK_HDB_INFO option \<times> 'b world"

section \<open>The error state\<close>

text \<open>
  Modelled from the spec: the error sink (\<^verbatim>\<open>tsk_error_reset\<close>, \<^verbatim>\<open>tsk_error_set_errno\<close>,
  \<^verbatim>\<open>tsk_error_set_errstr\<close>) is not among the sources. It holds one (kind, message) pair
  that the caller reads after the call; the format string is given here already
  expanded.
\<close>

definition tsk_error_reset :: "'b world \<Rightarrow> 'b world" where
  "tsk_error_reset w = w\<lparr>t_errno := None, errstr := []\<rparr>"

definition tsk_error_set_errno :: "TSK_ERR \<Rightarrow> 'b world \<Rightarrow> 'b world" where
  "tsk_error_set_errno e w = w\<lparr>t_errno := Some e\<rparr>"

definition tsk_error_set_errstr :: "string \<Rightarrow> 'b world \<Rightarrow> 'b world" where
  "tsk_error_set_errstr s w = w\<lparr>errstr := s\<rparr>"

text \<open>
  The three calls that every error exit of the file makes, in the order it makes them.
\<close>

definition report :: "TSK_ERR \<Rightarrow> string \<Rightarrow> 'b world \<Rightarrow> 'b world" where
  "report e s w = tsk_error_set_errstr s (tsk_error_set_errno e (tsk_error_reset w))"

text \<open>\<^verbatim>\<open>%u\<close>: an unsigned number in decimal.\<close>

fun fmt_u :: "nat \<Rightarrow> string" where
  "fmt_u n =
     (if n < 10 then [char_of (48 + n)]
      else fmt_u (n div 10) @ [char_of (48 + n mod 10)])"

declare fmt_u.simps [simp del]

section \<open>Streams\<close>

text \<open>
  \<^verbatim>\<open>hdb_open_file\<close>: \<^verbatim>\<open>fopen(file_path, "rb")\<close>; the new stream stands at position 0.
\<close>

definition hdb_open_file :: "'b hdb_env \<Rightarrow> string \<Rightarrow> 'b world \<Rightarrow> FILE option \<times> 'b world" where
  "hdb_open_file E file_path w =
     (case files E file_path of
        None \<Rightarrow> (None, w)
      | Some c \<Rightarrow>
          (Some \<lparr>name = file_path, contents = c, pos = 0\<rparr>,
           w\<lparr>streams := file_path # streams w\<rparr>))"

definition fclose :: "FILE \<Rightarrow> 'b world \<Rightarrow> 'b world" where
  "fclose f w = w\<lparr>streams := remove1 (name f) (streams w)\<rparr>"

text \<open>
  \<^verbatim>\<open>fseeko(hDb, offset, SEEK_SET)\<close> on a stream over a regular file, where the call
  succeeds. The source ignores the value \<^verbatim>\<open>fseeko\<close> returns.
\<close>

definition fseeko :: "FILE \<Rightarrow> nat \<Rightarrow> FILE" where
  "fseeko f offset = f\<lparr>pos := offset\<rparr>"

text \<open>Running a format test on a stream: the verdict, and the stream where the test left it.\<close>

definition run_test :: "(FILE \<Rightarrow> uint8_t \<times> nat) \<Rightarrow> FILE \<Rightarrow> bool \<times> FILE" where
  "run_test t f = (fst (t f) \<noteq> 0, f\<lparr>pos := snd (t f)\<rparr>)"

section \<open>Format detection\<close>

text \<open>
  \<^verbatim>\<open>hdb_determine_db_type\<close>, statement by statement. The result is the type tag and
  the stream as the function leaves it.
\<close>

definition hdb_determine_db_type ::
  "'b hdb_env \<Rightarrow> FILE \<Rightarrow> string \<Rightarrow> TSK_HDB_DBTYPE_ENUM \<times> FILE" where
  "hdb_determine_db_type E hDb db_path =
     (let db_type = TSK_HDB_DBTYPE_INVALID_ID;
          (is_sqlite, hDb) = run_test (sqlite_hdb_is_sqlite_file E) hDb
      in if is_sqlite then (TSK_HDB_DBTYPE_SQLITE_ID, fseeko hDb 0)
      else
        let hDb = fseeko hDb 0;
            (is_nsrl, hDb) = run_test (nsrl_test E) hDb;
            db_type = (if is_nsrl then TSK_HDB_DBTYPE_NSRL_ID else db_type);
            hDb = fseeko hDb 0;
            (is_md5sum, hDb) = run_test (md5sum_test E) hDb
        in if is_md5sum \<and> db_type \<noteq> TSK_HDB_DBTYPE_INVALID_ID
           then (TSK_HDB_DBTYPE_INVALID_ID, fseeko hDb 0)
        else
          let db_type = (if is_md5sum then TSK_HDB_DBTYPE_MD5SUM_ID else db_type);
              hDb = fseeko hDb 0;
              (is_encase, hDb) = run_test (encase_test E) hDb
          in if is_encase \<and> db_type \<noteq> TSK_HDB_DBTYPE_INVALID_ID
             then (TSK_HDB_DBTYPE_INVALID_ID, fseeko hDb 0)
          else
            let db_type = (if is_encase then TSK_HDB_DBTYPE_ENCASE_ID else db_type);
                hDb = fseeko hDb 0;
                (is_hk, hDb) = run_test (hk_test E) hDb
            in if is_hk \<and> db_type \<noteq> TSK_HDB_DBTYPE_INVALID_ID
               then (TSK_HDB_DBTYPE_INVALID_ID, fseeko hDb 0)
            else
              let db_type = (if is_hk then TSK_HDB_DBTYPE_HK_ID else db_type);
                  hDb = fseeko hDb 0
              in (db_type, hDb))"

text \<open>
  For stating what detection returns: the text formats whose test accepts the file when
  it is run from the start of the stream, in the order the function tries them.
\<close>

definition text_matches :: "'b hdb_env \<Rightarrow> FILE \<Rightarrow> TSK_HDB_DBTYPE_ENUM list" where
  "text_matches E f =
     map snd (filter (\<lambda>(t, d). fst (run_test t (fseeko f 0)))
       [(nsrl_test E, TSK_HDB_DBTYPE_NSRL_ID),
        (md5sum_test E, TSK_HDB_DBTYPE_MD5SUM_ID),
        (encase_test E, TSK_HDB_DBTYPE_ENCASE_ID),
        (hk_test E, TSK_HDB_DBTYPE_HK_ID)])"

section \<open>C strings and the path buffer\<close>

text \<open>
  A path is a C string: a \<open>string\<close> that holds no NUL. A buffer is a \<open>string\<close> that may
  hold NULs; the C string in it ends before the first one.
\<close>

definition NUL :: char where
  "NUL = CHR 0x00"

definition cstr :: "string \<Rightarrow> string" where
  "cstr buf = takeWhile (\<lambda>c. c \<noteq> NUL) buf"

definition TSTRLEN :: "string \<Rightarrow> nat" where
  "TSTRLEN s = length s"

text \<open>
  \<^verbatim>\<open>strrchr\<close>: the index of the last occurrence of the character, \<open>None\<close> for \<^verbatim>\<open>NULL\<close>.
\<close>

fun TSTRRCHR :: "string \<Rightarrow> char \<Rightarrow> nat option" where
  "TSTRRCHR [] c = None"
| "TSTRRCHR (x # xs) c =
     (case TSTRRCHR xs c of
        Some i \<Rightarrow> Some (Suc i)
      | None \<Rightarrow> if x = c then Some 0 else None)"

text \<open>
  \<^verbatim>\<open>strcmp\<close>: zero when the strings are equal; otherwise only the sign matters.
\<close>

fun TSTRCMP :: "string \<Rightarrow> string \<Rightarrow> int" where
  "TSTRCMP [] [] = 0"
| "TSTRCMP [] (y # ys) = - 1"
| "TSTRCMP (x # xs) [] = 1"
| "TSTRCMP (x # xs) (y # ys) =
     (if x = y then TSTRCMP xs ys else int (of_char x) - int (of_char y))"

text \<open>
  \<^verbatim>\<open>strncpy(dst, src, n)\<close> for \<open>n\<close> within the buffer: the first \<open>n\<close> characters of
  \<open>src\<close>, padded with NULs when \<open>src\<close> is shorter, and no terminator of its own; the rest
  of \<open>dst\<close> stays as it was.
\<close>

definition TSTRNCPY :: "string \<Rightarrow> string \<Rightarrow> nat \<Rightarrow> string" where
  "TSTRNCPY dst src n = take n (src @ replicate (n - length src) NUL) @ drop n dst"

text \<open>
  Modelled from the spec: the allocator \<^verbatim>\<open>tsk_malloc\<close> is not among the sources. It
  returns \<^verbatim>\<open>NULL\<close> when no memory is left and a zero-filled block otherwise; the
  zero fill is what terminates the path that \<^verbatim>\<open>tsk_hdb_open\<close> copies with \<^verbatim>\<open>strncpy\<close>.
\<close>

definition tsk_malloc :: "'b hdb_env \<Rightarrow> nat \<Rightarrow> 'b world \<Rightarrow> string option \<times> 'b world" where
  "tsk_malloc E n w =
     (if memory_left E then (Some (replicate n NUL), w\<lparr>blocks := Suc (blocks w)\<rparr>)
      else (None, w))"

definition free :: "'b world \<Rightarrow> 'b world" where
  "free w = w\<lparr>blocks := blocks w - 1\<rparr>"

section \<open>Opening a database\<close>

text \<open>
  Lines 155 to 169 of \<^verbatim>\<open>tsk_hdb_open\<close>: whether the path names an external index, and
  the buffer \<open>db_path\<close> after the copy.
\<close>

definition tsk_hdb_open_db_path :: "string \<Rightarrow> string \<Rightarrow> bool \<times> string" where
  "tsk_hdb_open_db_path file_path db_path =
     (case TSTRRCHR file_path (CHR ''-'') of
        Some i \<Rightarrow>
          (let ext = drop i file_path in
           if (TSTRLEN ext = 8 \<or> TSTRLEN ext = 9) \<and>
              (TSTRCMP ext ''-md5.idx'' = 0 \<or> TSTRCMP ext ''-sha1.idx'' = 0)
           then (True, TSTRNCPY db_path file_path i)
           else (False, TSTRNCPY db_path file_path (TSTRLEN file_path)))
      | None \<Rightarrow> (False, TSTRNCPY db_path file_path (TSTRLEN file_path)))"

text \<open>
  The \<^verbatim>\<open>switch\<close> on the type, the \<^verbatim>\<open>free\<close> after it and the \<^verbatim>\<open>return\<close>.
\<close>

definition tsk_hdb_open_switch ::
  "'b hdb_env \<Rightarrow> string \<Rightarrow> string \<Rightarrow> FILE option \<Rightarrow> TSK_HDB_DBTYPE_ENUM \<Rightarrow> 'b world
    \<Rightarrow> 'b TSK_HDB_INFO option \<times> 'b world" where
  "tsk_hdb_open_switch E file_path db_path hDb db_type' w =
     (case db_type' of
        TSK_HDB_DBTYPE_NSRL_ID \<Rightarrow>
          (let (hdb_info, w) = nsrl_open E hDb db_path w in (hdb_info, free w))
      | TSK_HDB_DBTYPE_MD5SUM_ID \<Rightarrow>
          (let (hdb_info, w) = md5sum_open E hDb db_path w in (hdb_info, free w))
      | TSK_HDB_DBTYPE_ENCASE_ID \<Rightarrow>
          (let (hdb_info, w) = encase_open E hDb db_path w in (hdb_info, free w))
      | TSK_HDB_DBTYPE_HK_ID \<Rightarrow>
          (let (hdb_info, w) = hk_open E hDb db_path w in (hdb_info, free w))
      | TSK_HDB_DBTYPE_IDXONLY_ID \<Rightarrow>
          (case hdb_open_file E file_path w of
             (None, w) \<Rightarrow>
               (None,
                free (report TSK_ERR_HDB_OPEN
                  (''tsk_hdb_open'' @ '': database is index only, failed to open index '' @ db_path) w))
           | (Some hIdx, w) \<Rightarrow>
               (let w = fclose hIdx w;
                    (hdb_info, w) = idxonly_open E db_path w
                in (hdb_info, free w)))
      | TSK_HDB_DBTYPE_SQLITE_ID \<Rightarrow>
          (let w = (case hDb of Some f \<Rightarrow> fclose f w | None \<Rightarrow> w);
               (hdb_info, w) = sqlite_hdb_open E db_path w
           in (hdb_info, free w))
      | TSK_HDB_DBTYPE_INVALID_ID \<Rightarrow> (None, free w))"

text \<open>
  Lines 171 to 199 of \<^verbatim>\<open>tsk_hdb_open\<close>, where the type is determined, followed by the
  \<^verbatim>\<open>switch\<close>.
\<close>

definition tsk_hdb_open_type ::
  "'b hdb_env \<Rightarrow> string \<Rightarrow> bool \<Rightarrow> string \<Rightarrow> TSK_HDB_OPEN_ENUM \<Rightarrow> 'b world
    \<Rightarrow> 'b TSK_HDB_INFO option \<times> 'b world" where
  "tsk_hdb_open_type E file_path file_path_is_idx_path db_path flags w =
     (if flags AND TSK_HDB_OPEN_IDXONLY E = 0 then
        (case hdb_open_file E db_path w of
           (Some hDb, w) \<Rightarrow>
             (let (db_type, hDb) = hdb_determine_db_type E hDb db_path in
              if db_type = TSK_HDB_DBTYPE_INVALID_ID then
                (None,
                 free (report TSK_ERR_HDB_UNKTYPE
                   (''tsk_hdb_open'' @ '': error determining hash database type of '' @ db_path) w))
              else tsk_hdb_open_switch E file_path db_path (Some hDb) db_type w)
         | (None, w) \<Rightarrow>
             if file_path_is_idx_path then
               tsk_hdb_open_switch E file_path db_path None TSK_HDB_DBTYPE_IDXONLY_ID w
             else
               (None,
                free (report TSK_ERR_HDB_OPEN
                  (''tsk_hdb_open'' @ '': failed to open '' @ db_path) w)))
      else tsk_hdb_open_switch E file_path db_path None TSK_HDB_DBTYPE_IDXONLY_ID w)"

text \<open>
  \<^verbatim>\<open>tsk_hdb_open\<close>. The path is \<open>None\<close> for \<^verbatim>\<open>NULL\<close>; the result is the handle (\<open>None\<close>
  for \<^verbatim>\<open>NULL\<close>) and the world after the call.
\<close>

definition tsk_hdb_open ::
  "'b hdb_env \<Rightarrow> string option \<Rightarrow> TSK_HDB_OPEN_ENUM \<Rightarrow> 'b world
    \<Rightarrow> 'b TSK_HDB_INFO option \<times> 'b world" where
  "tsk_hdb_open E file_path flags w =
     (case file_path of
        None \<Rightarrow> (None, report TSK_ERR_HDB_ARG (''tsk_hdb_open'' @ '': NULL file path'') w)
      | Some file_path \<Rightarrow>
          (case tsk_malloc E (TSTRLEN file_path + 1) w of
             (None, w) \<Rightarrow> (None, w)
           | (Some buf, w) \<Rightarrow>
               (let (file_path_is_idx_path, buf) = tsk_hdb_open_db_path file_path buf;
                    db_path = cstr buf
                in tsk_hdb_open_type E file_path file_path_is_idx_path db_path flags w)))"

text \<open>
  For stating what the path becomes: the C string that \<^verbatim>\<open>tsk_hdb_open\<close> holds in
  \<open>db_path\<close> from line 170 on, and whether it took the path for an index path.
\<close>

definition db_path_of :: "string \<Rightarrow> string" where
  "db_path_of file_path =
     cstr (snd (tsk_hdb_open_db_path file_path (replicate (TSTRLEN file_path + 1) NUL)))"

definition is_idx_path :: "string \<Rightarrow> bool" where
  "is_idx_path file_path =
     fst (tsk_hdb_open_db_path file_path (replicate (TSTRLEN file_path + 1) NUL))"

section \<open>Operations on an open database\<close>

text \<open>
  Each operation takes the handle (\<open>None\<close> for \<^verbatim>\<open>NULL\<close>) and the world, and returns what
  the C function returns together with the world after the call. A returned pointer is
  an option.
\<close>

definition tsk_hdb_get_db_path :: "'b TSK_HDB_INFO option \<Rightarrow> 'b world \<Rightarrow> string option \<times> 'b world" where
  "tsk_hdb_get_db_path hdb_info w =
     (case hdb_info of
        None \<Rightarrow> (None, report TSK_ERR_HDB_ARG ''tsk_hdb_get_db_path: NULL hdb_info'' w)
      | Some h \<Rightarrow> get_db_path h w)"

definition tsk_hdb_get_display_name ::
  "'b TSK_HDB_INFO option \<Rightarrow> 'b world \<Rightarrow> string option \<times> 'b world" where
  "tsk_hdb_get_display_name hdb_info w =
     (case hdb_info of
        None \<Rightarrow> (None, report TSK_ERR_HDB_ARG ''tsk_hdb_get_display_name: NULL hdb_info'' w)
      | Some h \<Rightarrow> get_display_name h w)"

definition tsk_hdb_uses_external_indexes ::
  "'b TSK_HDB_INFO option \<Rightarrow> 'b world \<Rightarrow> uint8_t \<times> 'b world" where
  "tsk_hdb_uses_external_indexes hdb_info w =
     (case hdb_info of
        None \<Rightarrow> (0, report TSK_ERR_HDB_ARG ''tsk_hdb_get_display_name: NULL hdb_info'' w)
      | Some h \<Rightarrow> (uses_external_indexes h, w))"

definition tsk_hdb_get_idx_path ::
  "'b TSK_HDB_INFO option \<Rightarrow> TSK_HDB_HTYPE_ENUM \<Rightarrow> 'b world \<Rightarrow> string option \<times> 'b world" where
  "tsk_hdb_get_idx_path hdb_info htype w =
     (case hdb_info of
        None \<Rightarrow> (None, report TSK_ERR_HDB_ARG ''tsk_hdb_get_idx_path: NULL hdb_info'' w)
      | Some h \<Rightarrow> get_index_path h htype w)"

definition tsk_hdb_open_idx ::
  "'b TSK_HDB_INFO option \<Rightarrow> TSK_HDB_HTYPE_ENUM \<Rightarrow> 'b world \<Rightarrow> uint8_t \<times> 'b world" where
  "tsk_hdb_open_idx hdb_info htype w =
     (case hdb_info of
        None \<Rightarrow> (0, report TSK_ERR_HDB_ARG ''tsk_hdb_open_idx: NULL hdb_info'' w)
      | Some h \<Rightarrow> open_index h htype w)"

definition tsk_hdb_has_idx ::
  "'b TSK_HDB_INFO option \<Rightarrow> TSK_HDB_HTYPE_ENUM \<Rightarrow> 'b world \<Rightarrow> uint8_t \<times> 'b world" where
  "tsk_hdb_has_idx hdb_info htype w =
     (case hdb_info of
        None \<Rightarrow> (0, report TSK_ERR_HDB_ARG ''tsk_hdb_has_idx: NULL hdb_info'' w)
      | Some h \<Rightarrow>
          (let (r, w) = open_index h htype w in (if r = 0 then 1 else 0, w)))"

definition tsk_hdb_is_idx_only :: "'b TSK_HDB_INFO option \<Rightarrow> 'b world \<Rightarrow> uint8_t \<times> 'b world" where
  "tsk_hdb_is_idx_only hdb_info w =
     (case hdb_info of
        None \<Rightarrow> (0, report TSK_ERR_HDB_ARG ''tsk_hdb_is_idx_only: NULL hdb_info'' w)
      | Some h \<Rightarrow> (if db_type h = TSK_HDB_DBTYPE_IDXONLY_ID then 1 else 0, w))"

definition tsk_hdb_make_index ::
  "'b TSK_HDB_INFO option \<Rightarrow> string option \<Rightarrow> 'b world \<Rightarrow> uint8_t \<times> 'b world" where
  "tsk_hdb_make_index hdb_info type w =
     (case hdb_info of
        None \<Rightarrow> (1, report TSK_ERR_HDB_ARG ''tsk_hdb_make_index: NULL hdb_info'' w)
      | Some h \<Rightarrow> make_index h type w)"

definition tsk_hdb_lookup_str ::
  "'b TSK_HDB_INFO option \<Rightarrow> string option \<Rightarrow> TSK_HDB_FLAG_ENUM \<Rightarrow> pointer \<Rightarrow> pointer \<Rightarrow> 'b world
    \<Rightarrow> int8_t \<times> 'b world" where
  "tsk_hdb_lookup_str hdb_info hash flags action ptr w =
     (case hdb_info of
        None \<Rightarrow> (- 1, report TSK_ERR_HDB_ARG ''tsk_hdb_lookup_str: NULL hdb_info'' w)
      | Some h \<Rightarrow> lookup_str h hash flags action ptr w)"

definition tsk_hdb_lookup_raw ::
  "'b TSK_HDB_INFO option \<Rightarrow> uint8_t list option \<Rightarrow> uint8_t \<Rightarrow> TSK_HDB_FLAG_ENUM \<Rightarrow> pointer
    \<Rightarrow> pointer \<Rightarrow> 'b world \<Rightarrow> int8_t \<times> 'b world" where
  "tsk_hdb_lookup_raw hdb_info hash len flags action ptr w =
     (case hdb_info of
        None \<Rightarrow> (- 1, report TSK_ERR_HDB_ARG ''tsk_hdb_lookup_raw: NULL hdb_info'' w)
      | Some h \<Rightarrow> lookup_raw h hash len flags action ptr w)"

definition tsk_hdb_lookup_verbose_str ::
  "'b TSK_HDB_INFO option \<Rightarrow> string option \<Rightarrow> pointer \<Rightarrow> 'b world \<Rightarrow> int8_t \<times> 'b world" where
  "tsk_hdb_lookup_verbose_str hdb_info hash result w =
     (case hdb_info of
        None \<Rightarrow> (- 1, report TSK_ERR_HDB_ARG ''tsk_hdb_lookup_verbose_str: NULL hdb_info'' w)
      | Some h \<Rightarrow>
          (case hash of
             None \<Rightarrow> (- 1, report TSK_ERR_HDB_ARG ''tsk_hdb_lookup_verbose_str: NULL hash'' w)
           | Some hs \<Rightarrow>
               (case result of
                  None \<Rightarrow> (- 1, report TSK_ERR_HDB_ARG ''tsk_hdb_lookup_verbose_str: NULL result'' w)
                | Some res \<Rightarrow> lookup_verbose_str h hs res w)))"

definition tsk_hdb_accepts_updates :: "'b TSK_HDB_INFO option \<Rightarrow> 'b world \<Rightarrow> uint8_t \<times> 'b world" where
  "tsk_hdb_accepts_updates hdb_info w =
     (case hdb_info of
        None \<Rightarrow> (0, report TSK_ERR_HDB_ARG (''tsk_hdb_accepts_updates'' @ '': NULL hdb_info'') w)
      | Some h \<Rightarrow>
          (case accepts_updates h of
             None \<Rightarrow>
               (0, report TSK_ERR_HDB_ARG
                     (''tsk_hdb_accepts_updates'' @ '': NULL add_entry function ptr'') w)
           | Some a \<Rightarrow> (a, w)))"

text \<open>
  The four entry points that change a database. Each calls \<^verbatim>\<open>accepts_updates()\<close> without
  testing the pointer, and \<^verbatim>\<open>tsk_hdb_rollback_transaction\<close> calls \<^verbatim>\<open>commit_transaction\<close>
  without testing it: a call through \<^verbatim>\<open>NULL\<close> has no defined behaviour in C, and the
  result of the operation is then \<open>None\<close>. The parameter \<open>enum_value\<close> is the number of
  each enumerator of the type tag, which the absent header declares and \<^verbatim>\<open>%u\<close> prints.
  The transaction operations return the handle as they leave it.
\<close>

definition not_supported :: "string \<Rightarrow> nat \<Rightarrow> string" where
  "not_supported func_name n =
     func_name @ '': operation not supported for this database type (='' @ fmt_u n @ '')''"

definition tsk_hdb_add_entry ::
  "(TSK_HDB_DBTYPE_ENUM \<Rightarrow> nat) \<Rightarrow> 'b TSK_HDB_INFO option \<Rightarrow> string option \<Rightarrow> string option
    \<Rightarrow> string option \<Rightarrow> string option \<Rightarrow> string option \<Rightarrow> 'b world
    \<Rightarrow> (uint8_t \<times> 'b world) option" where
  "tsk_hdb_add_entry enum_value hdb_info filename md5 sha1 sha256 comment w =
     (case hdb_info of
        None \<Rightarrow> Some (1, report TSK_ERR_HDB_ARG (''tsk_hdb_add_entry'' @ '': NULL hdb_info'') w)
      | Some h \<Rightarrow>
          (case add_entry h of
             None \<Rightarrow>
               Some (1, report TSK_ERR_HDB_ARG
                          (''tsk_hdb_add_entry'' @ '': NULL add_entry function ptr'') w)
           | Some add \<Rightarrow>
               (case accepts_updates h of
                  None \<Rightarrow> None
                | Some a \<Rightarrow>
                    if a \<noteq> 0 then Some (add filename md5 sha1 sha256 comment w)
                    else
                      Some (1, report TSK_ERR_HDB_PROC
                                 (not_supported ''tsk_hdb_add_entry'' (enum_value (db_type h))) w))))"

definition tsk_hdb_begin_transaction ::
  "(TSK_HDB_DBTYPE_ENUM \<Rightarrow> nat) \<Rightarrow> 'b TSK_HDB_INFO option \<Rightarrow> 'b world
    \<Rightarrow> (uint8_t \<times> 'b TSK_HDB_INFO option \<times> 'b world) option" where
  "tsk_hdb_begin_transaction enum_value hdb_info w =
     (case hdb_info of
        None \<Rightarrow>
          Some (1, None, report TSK_ERR_HDB_ARG (''tsk_hdb_begin_transaction'' @ '': NULL hdb_info'') w)
      | Some h \<Rightarrow>
          (case begin_transaction h of
             None \<Rightarrow>
               Some (1, Some h,
                     report TSK_ERR_HDB_ARG
                       (''tsk_hdb_begin_transaction'' @ '': NULL begin_transaction function ptr'') w)
           | Some begin \<Rightarrow>
               (case accepts_updates h of
                  None \<Rightarrow> None
                | Some a \<Rightarrow>
                    if a \<noteq> 0 then
                      if \<not> transaction_in_progress h then
                        (let (r, w) = begin w in
                         if r \<noteq> 0 then Some (1, Some h, w)
                         else Some (0, Some (h\<lparr>transaction_in_progress := True\<rparr>), w))
                      else
                        Some (1, Some h,
                              report TSK_ERR_HDB_PROC
                                (''tsk_hdb_begin_transaction'' @ '': transaction already begun'') w)
                    else
                      Some (1, Some h,
                            report TSK_ERR_HDB_PROC
                              (not_supported ''tsk_hdb_begin_transaction'' (enum_value (db_type h))) w))))"

definition tsk_hdb_commit_transaction ::
  "(TSK_HDB_DBTYPE_ENUM \<Rightarrow> nat) \<Rightarrow> 'b TSK_HDB_INFO option \<Rightarrow> 'b world
    \<Rightarrow> (uint8_t \<times> 'b TSK_HDB_INFO option \<times> 'b world) option" where
  "tsk_hdb_commit_transaction enum_value hdb_info w =
     (case hdb_info of
        None \<Rightarrow>
          Some (1, None, report TSK_ERR_HDB_ARG (''tsk_hdb_commit_transaction'' @ '': NULL hdb_info'') w)
      | Some h \<Rightarrow>
          (case commit_transaction h of
             None \<Rightarrow>
               Some (1, Some h,
                     report TSK_ERR_HDB_ARG
                       (''tsk_hdb_commit_transaction'' @ '': NULL commit_transaction function ptr'') w)
           | Some commit \<Rightarrow>
               (case accepts_updates h of
                  None \<Rightarrow> None
                | Some a \<Rightarrow>
                    if a \<noteq> 0 then
                      if transaction_in_progress h then
                        (let (r, w) = commit w in
                         if r \<noteq> 0 then Some (1, Some h, w)
                         else Some (0, Some (h\<lparr>transaction_in_progress := False\<rparr>), w))
                      else
                        Some (1, Some h,
                              report TSK_ERR_HDB_PROC
                                (''tsk_hdb_commit_transaction'' @ '': transaction not begun'') w)
                    else
                      Some (1, Some h,
                            report TSK_ERR_HDB_PROC
                              (not_supported ''tsk_hdb_commit_transaction'' (enum_value (db_type h))) w))))"

definition tsk_hdb_rollback_transaction ::
  "(TSK_HDB_DBTYPE_ENUM \<Rightarrow> nat) \<Rightarrow> 'b TSK_HDB_INFO option \<Rightarrow> 'b world
    \<Rightarrow> (uint8_t \<times> 'b TSK_HDB_INFO option \<times> 'b world) option" where
  "tsk_hdb_rollback_transaction enum_value hdb_info w =
     (case hdb_info of
        None \<Rightarrow>
          Some (1, None, report TSK_ERR_HDB_ARG (''tsk_hdb_rollback_transaction'' @ '': NULL hdb_info'') w)
      | Some h \<Rightarrow>
          (case rollback_transaction h of
             None \<Rightarrow>
               Some (1, Some h,
                     report TSK_ERR_HDB_ARG
                       (''tsk_hdb_rollback_transaction'' @ '': NULL rollback_transaction function ptr'') w)
           | Some rollback \<Rightarrow>
               (case accepts_updates h of
                  None \<Rightarrow> None
                | Some a \<Rightarrow>
                    if a \<noteq> 0 then
                      if transaction_in_progress h then
                        (case commit_transaction h of
                           None \<Rightarrow> None
                         | Some commit \<Rightarrow>
                             (let (r, w) = commit w in
                              if r \<noteq> 0 then Some (1, Some h, w)
                              else Some (0, Some (h\<lparr>transaction_in_progress := False\<rparr>), w)))
                      else
                        Some (1, Some h,
                              report TSK_ERR_HDB_PROC
                                (''tsk_hdb_rollback_transaction'' @ '': transaction not begun'') w)
                    else
                      Some (1, Some h,
                            report TSK_ERR_HDB_PROC
                              (not_supported ''tsk_hdb_rollback_transaction'' (enum_value (db_type h))) w))))"

definition tsk_hdb_close :: "'b TSK_HDB_INFO option \<Rightarrow> 'b world \<Rightarrow> 'b world" where
  "tsk_hdb_close hdb_info w =
     (case hdb_info of
        None \<Rightarrow> report TSK_ERR_HDB_ARG ''tsk_hdb_close: NULL hdb_info'' w
      | Some h \<Rightarrow> close_db h w)"

section \<open>Sequences of calls on one handle\<close>

text \<open>
  For stating what holds in every state a handle can reach: the calls a caller can make
  on an open handle, one call (the state after it, the returned value dropped) and a
  sequence of calls. \<^verbatim>\<open>tsk_hdb_close\<close> ends the handle and is not among them.
\<close>

datatype hdb_call =
    Get_db_path
  | Get_display_name
  | Uses_external_indexes
  | Get_idx_path TSK_HDB_HTYPE_ENUM
  | Open_idx TSK_HDB_HTYPE_ENUM
  | Has_idx TSK_HDB_HTYPE_ENUM
  | Is_idx_only
  | Make_index "string option"
  | Lookup_str "string option" TSK_HDB_FLAG_ENUM pointer pointer
  | Lookup_raw "uint8_t list option" uint8_t TSK_HDB_FLAG_ENUM pointer pointer
  | Lookup_verbose_str "string option" pointer
  | Accepts_updates
  | Add_entry "string option" "string option" "string option" "string option" "string option"
  | Begin_transaction
  | Commit_transaction
  | Rollback_transaction

definition handle_after ::
  "'b TSK_HDB_INFO \<Rightarrow> (uint8_t \<times> 'b TSK_HDB_INFO option \<times> 'b world) option
    \<Rightarrow> ('b TSK_HDB_INFO \<times> 'b world) option" where
  "handle_after h r =
     (case r of
        None \<Rightarrow> None
      | Some (ret, None, w) \<Rightarrow> Some (h, w)
      | Some (ret, Some h', w) \<Rightarrow> Some (h', w))"

fun call ::
  "(TSK_HDB_DBTYPE_ENUM \<Rightarrow> nat) \<Rightarrow> hdb_call \<Rightarrow> 'b TSK_HDB_INFO \<times> 'b world
    \<Rightarrow> ('b TSK_HDB_INFO \<times> 'b world) option" where
  "call ev Get_db_path (h, w) = Some (h, snd (tsk_hdb_get_db_path (Some h) w))"
| "call ev Get_display_name (h, w) = Some (h, snd (tsk_hdb_get_display_name (Some h) w))"
| "call ev Uses_external_indexes (h, w) = Some (h, snd (tsk_hdb_uses_external_indexes (Some h) w))"
| "call ev (Get_idx_path t) (h, w) = Some (h, snd (tsk_hdb_get_idx_path (Some h) t w))"
| "call ev (Open_idx t) (h, w) = Some (h, snd (tsk_hdb_open_idx (Some h) t w))"
| "call ev (Has_idx t) (h, w) = Some (h, snd (tsk_hdb_has_idx (Some h) t w))"
| "call ev Is_idx_only (h, w) = Some (h, snd (tsk_hdb_is_idx_only (Some h) w))"
| "call ev (Make_index ty) (h, w) = Some (h, snd (tsk_hdb_make_index (Some h) ty w))"
| "call ev (Lookup_str hs fl a p) (h, w) = Some (h, snd (tsk_hdb_lookup_str (Some h) hs fl a p w))"
| "call ev (Lookup_raw hs n fl a p) (h, w) =
     Some (h, snd (tsk_hdb_lookup_raw (Some h) hs n fl a p w))"
| "call ev (Lookup_verbose_str hs r) (h, w) =
     Some (h, snd (tsk_hdb_lookup_verbose_str (Some h) hs r w))"
| "call ev Accepts_updates (h, w) = Some (h, snd (tsk_hdb_accepts_updates (Some h) w))"
| "call ev (Add_entry fn m s1 s2 c) (h, w) =
     map_option (\<lambda>(ret, w'). (h, w')) (tsk_hdb_add_entry ev (Some h) fn m s1 s2 c w)"
| "call ev Begin_transaction (h, w) = handle_after h (tsk_hdb_begin_transaction ev (Some h) w)"
| "call ev Commit_transaction (h, w) = handle_after h (tsk_hdb_commit_transaction ev (Some h) w)"
| "call ev Rollback_transaction (h, w) = handle_after h (tsk_hdb_rollback_transaction ev (Some h) w)"

fun calls ::
  "(TSK_HDB_DBTYPE_ENUM \<Rightarrow> nat) \<Rightarrow> hdb_call list \<Rightarrow> 'b TSK_HDB_INFO \<times> 'b world
    \<Rightarrow> ('b TSK_HDB_INFO \<times> 'b world) option" where
  "calls ev [] s = Some s"
| "calls ev (c # cs) s = (case call ev c s of None \<Rightarrow> None | Some s' \<Rightarrow> calls ev cs s')"

section \<open>Sample data\<close>

text \<open>
  Concrete values on which the theorems below are evaluated: a world whose backend store
  is the list of the backend functions called so far, a backend whose functions succeed
  and log their name, format tests that look for a fixed signature at a fixed offset from
  the stream position, and a small file system.
\<close>

definition ex_world :: "string list world" where
  "ex_world = \<lparr>t_errno = None, errstr = [], streams = [], blocks = 0, store = []\<rparr>"

definition ex_log :: "string \<Rightarrow> 'r \<Rightarrow> string list world \<Rightarrow> 'r \<times> string list world" where
  "ex_log nm r w = (r, w\<lparr>store := store w @ [nm]\<rparr>)"

definition ex_hdb :: "string list TSK_HDB_INFO" where
  "ex_hdb =
     \<lparr>db_type = TSK_HDB_DBTYPE_SQLITE_ID,
      transaction_in_progress = False,
      get_db_path = ex_log ''get_db_path'' (Some ''known.kdb''),
      get_display_name = ex_log ''get_display_name'' (Some ''known''),
      uses_external_indexes = 0,
      get_index_path = (\<lambda>t. ex_log ''get_index_path'' (Some ''known.kdb'')),
      open_index = (\<lambda>t. ex_log ''open_index'' 0),
      make_index = (\<lambda>ty. ex_log ''make_index'' 1),
      lookup_str = (\<lambda>hs fl a p. ex_log ''lookup_str'' 0),
      lookup_raw = (\<lambda>hs n fl a p. ex_log ''lookup_raw'' 0),
      lookup_verbose_str = (\<lambda>hs r. ex_log ''lookup_verbose_str'' 0),
      accepts_updates = Some 1,
      add_entry = Some (\<lambda>fn m s1 s2 c. ex_log ''add_entry'' 0),
      begin_transaction = Some (ex_log ''begin_transaction'' 0),
      commit_transaction = Some (ex_log ''commit_transaction'' 0),
      rollback_transaction = Some (ex_log ''rollback_transaction'' 0),
      close_db = (\<lambda>w. w\<lparr>store := store w @ [''close_db'']\<rparr>)\<rparr>"

text \<open>A backend of a text format: it looks hashes up in an external index and takes no updates.\<close>

definition ex_text_hdb :: "string list TSK_HDB_INFO" where
  "ex_text_hdb =
     ex_hdb\<lparr>db_type := TSK_HDB_DBTYPE_MD5SUM_ID, uses_external_indexes := 1,
            open_index := (\<lambda>t. ex_log ''open_index'' 1), accepts_updates := Some 0\<rparr>"

definition ex_enum_value :: "TSK_HDB_DBTYPE_ENUM \<Rightarrow> nat" where
  "ex_enum_value d =
     (case d of
        TSK_HDB_DBTYPE_NSRL_ID \<Rightarrow> 1
      | TSK_HDB_DBTYPE_MD5SUM_ID \<Rightarrow> 2
      | TSK_HDB_DBTYPE_HK_ID \<Rightarrow> 3
      | TSK_HDB_DBTYPE_IDXONLY_ID \<Rightarrow> 4
      | TSK_HDB_DBTYPE_ENCASE_ID \<Rightarrow> 5
      | TSK_HDB_DBTYPE_SQLITE_ID \<Rightarrow> 6
      | TSK_HDB_DBTYPE_INVALID_ID \<Rightarrow> 7)"

definition has_at :: "nat \<Rightarrow> string \<Rightarrow> FILE \<Rightarrow> uint8_t \<times> nat" where
  "has_at k s f =
     (if take (length s) (drop (pos f + k) (contents f)) = s then 1 else 0,
      pos f + k + length s)"

definition ex_files :: "string \<Rightarrow> string option" where
  "ex_files =
     map_of
       [(''known.kdb'', ''SQLite format 3''),
        (''nsrl.txt'', [CHR 0x22] @ ''SHA-1'' @ [CHR 0x22]),
        (''sums.md5'', ''MD5 (a.out) = d41d8cd98f00b204e9800998ecf8427e''),
        (''both.txt'', ''MD5 (file_id) = d41d8cd98f00b204e9800998ecf8427e''),
        (''notes.txt'', ''hello''),
        (''gone-md5.idx'', ''00000000000000000000000000000000|0000000000000000'')]"

definition ex_open ::
  "string \<Rightarrow> TSK_HDB_DBTYPE_ENUM \<Rightarrow> string list world
    \<Rightarrow> string list TSK_HDB_INFO option \<times> string list world" where
  "ex_open nm d w = ex_log nm (Some (ex_text_hdb\<lparr>db_type := d\<rparr>)) w"

definition ex_env :: "string list hdb_env" where
  "ex_env =
     \<lparr>files = ex_files,
      memory_left = True,
      TSK_HDB_OPEN_IDXONLY = 1,
      sqlite_hdb_is_sqlite_file = has_at 0 ''SQLite format 3'',
      nsrl_test = has_at 1 ''SHA-1'',
      md5sum_test = has_at 0 ''MD5 ('',
      encase_test = has_at 0 ''HASH'',
      hk_test = has_at 5 ''file_id'',
      nsrl_open = (\<lambda>f p. ex_open (''nsrl_open '' @ p) TSK_HDB_DBTYPE_NSRL_ID),
      md5sum_open = (\<lambda>f p. ex_open (''md5sum_open '' @ p) TSK_HDB_DBTYPE_MD5SUM_ID),
      encase_open = (\<lambda>f p. ex_open (''encase_open '' @ p) TSK_HDB_DBTYPE_ENCASE_ID),
      hk_open = (\<lambda>f p. ex_open (''hk_open '' @ p) TSK_HDB_DBTYPE_HK_ID),
      idxonly_open = (\<lambda>p. ex_open (''idxonly_open '' @ p) TSK_HDB_DBTYPE_IDXONLY_ID),
      sqlite_hdb_open = (\<lambda>p. ex_log (''sqlite_hdb_open '' @ p) (Some ex_hdb))\<rparr>"

definition ex_stream :: "string \<Rightarrow> FILE" where
  "ex_stream p =
     \<lparr>name = p, contents = (case ex_files p of Some c \<Rightarrow> c | None \<Rightarrow> []), pos = 0\<rparr>"

section \<open>Notions for stating the properties\<close>

text \<open>An error message names an operation when it starts with the operation's name.\<close>

definition names_operation :: "string \<Rightarrow> string \<Rightarrow> bool" where
  "names_operation func_name msg = (take (length func_name) msg = func_name)"

text \<open>A path ends in a suffix.\<close>

definition ends_with :: "string \<Rightarrow> string \<Rightarrow> bool" where
  "ends_with sfx path =
     (length sfx \<le> length path \<and> drop (length path - length sfx) path = sfx)"

section \<open>Format detection: what it returns and where it leaves the stream\<close>

lemma hdb_determine_db_type_eq:
  "fst (hdb_determine_db_type E hDb db_path) =
     (if fst (sqlite_hdb_is_sqlite_file E hDb) \<noteq> 0 then TSK_HDB_DBTYPE_SQLITE_ID
      else case text_matches E hDb of [d] \<Rightarrow> d | _ \<Rightarrow> TSK_HDB_DBTYPE_INVALID_ID)"
  by (simp add: hdb_determine_db_type_def text_matches_def run_test_def fseeko_def Let_def)

text \<open>
  C1 (as amended). When the relational-store test accepts the stream,
  \<^verbatim>\<open>hdb_determine_db_type\<close> returns \<open>TSK_HDB_DBTYPE_SQLITE_ID\<close> whatever the four text tests
  would say. When it does not: if more than one of the four text tests (\<^verbatim>\<open>nsrl_test\<close>,
  \<^verbatim>\<open>md5sum_test\<close>, \<^verbatim>\<open>encase_test\<close>, \<^verbatim>\<open>hk_test\<close>, each run from the start of the stream)
  accepts, the result is \<open>TSK_HDB_DBTYPE_INVALID_ID\<close>; if exactly one accepts, the result
  is that format's identifier; if none accepts, the result is \<open>TSK_HDB_DBTYPE_INVALID_ID\<close>.
\<close>

theorem hdb_determine_db_type_unique_match:
  "(fst (sqlite_hdb_is_sqlite_file E hDb) \<noteq> 0 \<longrightarrow>
      fst (hdb_determine_db_type E hDb db_path) = TSK_HDB_DBTYPE_SQLITE_ID) \<and>
   (fst (sqlite_hdb_is_sqlite_file E hDb) = 0 \<longrightarrow>
      (1 < length (text_matches E hDb) \<longrightarrow>
         fst (hdb_determine_db_type E hDb db_path) = TSK_HDB_DBTYPE_INVALID_ID) \<and>
      (\<forall>d. text_matches E hDb = [d] \<longrightarrow> fst (hdb_determine_db_type E hDb db_path) = d) \<and>
      (text_matches E hDb = [] \<longrightarrow>
         fst (hdb_determine_db_type E hDb db_path) = TSK_HDB_DBTYPE_INVALID_ID))"
proof (cases "fst (sqlite_hdb_is_sqlite_file E hDb) = 0")
  case False
  then show ?thesis
    by (simp add: hdb_determine_db_type_eq)
next
  case True
  then have r: "fst (hdb_determine_db_type E hDb db_path) =
      (case text_matches E hDb of [d] \<Rightarrow> d | _ \<Rightarrow> TSK_HDB_DBTYPE_INVALID_ID)"
    by (simp add: hdb_determine_db_type_eq)
  show ?thesis
  proof (cases "text_matches E hDb")
    case Nil
    with True r show ?thesis by simp
  next
    case (Cons d ds)
    with True r show ?thesis by (cases ds) simp_all
  qed
qed

lemmas ex_detect_defs =
  hdb_determine_db_type_def text_matches_def run_test_def fseeko_def
  ex_env_def ex_stream_def ex_files_def has_at_def

theorem hdb_determine_db_type_unique_match_witness:
  "fst (sqlite_hdb_is_sqlite_file ex_env (ex_stream ''known.kdb'')) \<noteq> 0 \<and>
   fst (hdb_determine_db_type ex_env (ex_stream ''known.kdb'') ''known.kdb'') =
     TSK_HDB_DBTYPE_SQLITE_ID \<and>
   fst (sqlite_hdb_is_sqlite_file ex_env (ex_stream ''both.txt'')) = 0 \<and>
   1 < length (text_matches ex_env (ex_stream ''both.txt'')) \<and>
   fst (hdb_determine_db_type ex_env (ex_stream ''both.txt'') ''both.txt'') =
     TSK_HDB_DBTYPE_INVALID_ID \<and>
   fst (sqlite_hdb_is_sqlite_file ex_env (ex_stream ''sums.md5'')) = 0 \<and>
   text_matches ex_env (ex_stream ''sums.md5'') = [TSK_HDB_DBTYPE_MD5SUM_ID] \<and>
   fst (hdb_determine_db_type ex_env (ex_stream ''sums.md5'') ''sums.md5'') =
     TSK_HDB_DBTYPE_MD5SUM_ID \<and>
   fst (sqlite_hdb_is_sqlite_file ex_env (ex_stream ''notes.txt'')) = 0 \<and>
   text_matches ex_env (ex_stream ''notes.txt'') = [] \<and>
   fst (hdb_determine_db_type ex_env (ex_stream ''notes.txt'') ''notes.txt'') =
     TSK_HDB_DBTYPE_INVALID_ID"
proof -
  have s1: "fst (sqlite_hdb_is_sqlite_file ex_env (ex_stream ''known.kdb'')) \<noteq> 0"
    and s2: "fst (sqlite_hdb_is_sqlite_file ex_env (ex_stream ''both.txt'')) = 0"
    and s3: "fst (sqlite_hdb_is_sqlite_file ex_env (ex_stream ''sums.md5'')) = 0"
    and s4: "fst (sqlite_hdb_is_sqlite_file ex_env (ex_stream ''notes.txt'')) = 0"
    by (simp_all add: ex_detect_defs)
  have m2: "1 < length (text_matches ex_env (ex_stream ''both.txt''))"
    and m3: "text_matches ex_env (ex_stream ''sums.md5'') = [TSK_HDB_DBTYPE_MD5SUM_ID]"
    and m4: "text_matches ex_env (ex_stream ''notes.txt'') = []"
    by (simp_all add: ex_detect_defs)
  show ?thesis
    using s1 s2 s3 s4 m2 m3 m4
      hdb_determine_db_type_unique_match [of ex_env "ex_stream ''known.kdb''" "''known.kdb''"]
      hdb_determine_db_type_unique_match [of ex_env "ex_stream ''both.txt''" "''both.txt''"]
      hdb_determine_db_type_unique_match [of ex_env "ex_stream ''sums.md5''" "''sums.md5''"]
      hdb_determine_db_type_unique_match [of ex_env "ex_stream ''notes.txt''" "''notes.txt''"]
    by simp
qed

text \<open>
  C1 as it is written fails on a relational-store file: none of the four text tests
  accepts it, and the result is not \<open>TSK_HDB_DBTYPE_INVALID_ID\<close>.
\<close>

theorem hdb_determine_db_type_sqlite_counterexample:
  "text_matches ex_env (ex_stream ''known.kdb'') = [] \<and>
   fst (hdb_determine_db_type ex_env (ex_stream ''known.kdb'') ''known.kdb'') \<noteq>
     TSK_HDB_DBTYPE_INVALID_ID"
  by (simp add: ex_detect_defs)

text \<open>
  C7. On every exit of \<^verbatim>\<open>hdb_determine_db_type\<close> (relational store, ambiguous, one text
  format, no match) the stream stands at position 0, and it is still the same stream
  over the same bytes.
\<close>

theorem hdb_determine_db_type_rewinds:
  "pos (snd (hdb_determine_db_type E hDb db_path)) = 0 \<and>
   name (snd (hdb_determine_db_type E hDb db_path)) = name hDb \<and>
   contents (snd (hdb_determine_db_type E hDb db_path)) = contents hDb"
proof (cases "fst (sqlite_hdb_is_sqlite_file E hDb) = 0")
  case False
  then show ?thesis
    by (simp add: hdb_determine_db_type_def run_test_def fseeko_def)
next
  case True
  then show ?thesis
    by (simp add: hdb_determine_db_type_def run_test_def fseeko_def Let_def)
qed

theorem hdb_determine_db_type_rewinds_witness:
  "pos (snd (hdb_determine_db_type ex_env (ex_stream ''known.kdb'') ''known.kdb'')) = 0 \<and>
   pos (snd (hdb_determine_db_type ex_env (ex_stream ''both.txt'') ''both.txt'')) = 0 \<and>
   pos (snd (hdb_determine_db_type ex_env (ex_stream ''sums.md5'') ''sums.md5'')) = 0 \<and>
   pos (snd (hdb_determine_db_type ex_env (ex_stream ''notes.txt'') ''notes.txt'')) = 0"
  using
    hdb_determine_db_type_rewinds [of ex_env "ex_stream ''known.kdb''" "''known.kdb''"]
    hdb_determine_db_type_rewinds [of ex_env "ex_stream ''both.txt''" "''both.txt''"]
    hdb_determine_db_type_rewinds [of ex_env "ex_stream ''sums.md5''" "''sums.md5''"]
    hdb_determine_db_type_rewinds [of ex_env "ex_stream ''notes.txt''" "''notes.txt''"]
  by simp

section \<open>Transactions\<close>

lemma report_fields [simp]:
  "t_errno (report e s w) = Some e"
  "errstr (report e s w) = s"
  "store (report e s w) = store w"
  "streams (report e s w) = streams w"
  "blocks (report e s w) = blocks w"
  by (simp_all add: report_def tsk_error_reset_def tsk_error_set_errno_def
      tsk_error_set_errstr_def)

lemma begin_rejected:
  assumes "accepts_updates h = Some a" and "a \<noteq> 0" and "transaction_in_progress h"
  shows "\<exists>e s. tsk_hdb_begin_transaction ev (Some h) w = Some (1, Some h, report e s w)"
  using assms by (auto simp add: tsk_hdb_begin_transaction_def split: option.split)

lemma commit_rejected:
  assumes "accepts_updates h = Some a" and "a \<noteq> 0" and "\<not> transaction_in_progress h"
  shows "\<exists>e s. tsk_hdb_commit_transaction ev (Some h) w = Some (1, Some h, report e s w)"
  using assms by (auto simp add: tsk_hdb_commit_transaction_def split: option.split)

lemma rollback_rejected:
  assumes "accepts_updates h = Some a" and "a \<noteq> 0" and "\<not> transaction_in_progress h"
  shows "\<exists>e s. tsk_hdb_rollback_transaction ev (Some h) w = Some (1, Some h, report e s w)"
  using assms by (auto simp add: tsk_hdb_rollback_transaction_def split: option.split)

text \<open>
  C4. On a handle whose backend accepts updates (\<^verbatim>\<open>accepts_updates()\<close> returns nonzero),
  \<^verbatim>\<open>tsk_hdb_begin_transaction\<close> with a transaction in progress, and
  \<^verbatim>\<open>tsk_hdb_commit_transaction\<close> and \<^verbatim>\<open>tsk_hdb_rollback_transaction\<close> with none in progress,
  return 1, leave the handle as it was (so the flag keeps its value) and change nothing
  of the world but the reported error.
\<close>

theorem transaction_misuse_rejected:
  assumes "accepts_updates h = Some a" and "a \<noteq> 0"
  shows
    "(transaction_in_progress h \<longrightarrow>
        (\<exists>e s. tsk_hdb_begin_transaction ev (Some h) w = Some (1, Some h, report e s w))) \<and>
     (\<not> transaction_in_progress h \<longrightarrow>
        (\<exists>e s. tsk_hdb_commit_transaction ev (Some h) w = Some (1, Some h, report e s w)) \<and>
        (\<exists>e s. tsk_hdb_rollback_transaction ev (Some h) w = Some (1, Some h, report e s w)))"
  using begin_rejected [OF assms] commit_rejected [OF assms] rollback_rejected [OF assms]
  by blast

theorem transaction_misuse_rejected_witness:
  "tsk_hdb_begin_transaction ex_enum_value
      (Some (ex_hdb\<lparr>transaction_in_progress := True\<rparr>)) ex_world =
     Some (1, Some (ex_hdb\<lparr>transaction_in_progress := True\<rparr>),
           report TSK_ERR_HDB_PROC
             ''tsk_hdb_begin_transaction: transaction already begun'' ex_world) \<and>
   tsk_hdb_commit_transaction ex_enum_value (Some ex_hdb) ex_world =
     Some (1, Some ex_hdb,
           report TSK_ERR_HDB_PROC
             ''tsk_hdb_commit_transaction: transaction not begun'' ex_world) \<and>
   tsk_hdb_rollback_transaction ex_enum_value (Some ex_hdb) ex_world =
     Some (1, Some ex_hdb,
           report TSK_ERR_HDB_PROC
             ''tsk_hdb_rollback_transaction: transaction not begun'' ex_world)"
proof -
  have a: "accepts_updates (ex_hdb\<lparr>transaction_in_progress := True\<rparr>) = Some 1"
    and b: "accepts_updates ex_hdb = Some 1"
    by (simp_all add: ex_hdb_def)
  have one: "(1 :: uint8_t) \<noteq> 0"
    by simp
  note t = transaction_misuse_rejected [OF a one, of ex_enum_value ex_world]
  note f = transaction_misuse_rejected [OF b one, of ex_enum_value ex_world]
  show ?thesis
    using t f
    by (simp add: tsk_hdb_begin_transaction_def tsk_hdb_commit_transaction_def
        tsk_hdb_rollback_transaction_def ex_hdb_def)
qed

section \<open>The gate in front of the mutation entry points\<close>

lemma add_entry_gate:
  assumes "accepts_updates h = Some 0"
  shows "tsk_hdb_add_entry ev (Some h) fn m s1 s2 c w =
     Some (1, case add_entry h of
                None \<Rightarrow> report TSK_ERR_HDB_ARG ''tsk_hdb_add_entry: NULL add_entry function ptr'' w
              | Some f \<Rightarrow> report TSK_ERR_HDB_PROC
                            (not_supported ''tsk_hdb_add_entry'' (ev (db_type h))) w)"
  using assms by (simp add: tsk_hdb_add_entry_def split: option.split)

lemma begin_gate:
  assumes "accepts_updates h = Some 0"
  shows "tsk_hdb_begin_transaction ev (Some h) w =
     Some (1, Some h,
           case begin_transaction h of
             None \<Rightarrow> report TSK_ERR_HDB_ARG
                       ''tsk_hdb_begin_transaction: NULL begin_transaction function ptr'' w
           | Some f \<Rightarrow> report TSK_ERR_HDB_PROC
                         (not_supported ''tsk_hdb_begin_transaction'' (ev (db_type h))) w)"
  using assms by (simp add: tsk_hdb_begin_transaction_def split: option.split)

lemma commit_gate:
  assumes "accepts_updates h = Some 0"
  shows "tsk_hdb_commit_transaction ev (Some h) w =
     Some (1, Some h,
           case commit_transaction h of
             None \<Rightarrow> report TSK_ERR_HDB_ARG
                       ''tsk_hdb_commit_transaction: NULL commit_transaction function ptr'' w
           | Some f \<Rightarrow> report TSK_ERR_HDB_PROC
                         (not_supported ''tsk_hdb_commit_transaction'' (ev (db_type h))) w)"
  using assms by (simp add: tsk_hdb_commit_transaction_def split: option.split)

lemma rollback_gate:
  assumes "accepts_updates h = Some 0"
  shows "tsk_hdb_rollback_transaction ev (Some h) w =
     Some (1, Some h,
           case rollback_transaction h of
             None \<Rightarrow> report TSK_ERR_HDB_ARG
                       ''tsk_hdb_rollback_transaction: NULL rollback_transaction function ptr'' w
           | Some f \<Rightarrow> report TSK_ERR_HDB_PROC
                         (not_supported ''tsk_hdb_rollback_transaction'' (ev (db_type h))) w)"
  using assms by (simp add: tsk_hdb_rollback_transaction_def split: option.split)

text \<open>
  No call changes the handle of a backend that takes no updates, and none of them runs
  into a \<^verbatim>\<open>NULL\<close> function pointer.
\<close>

lemma call_keeps_handle:
  assumes "accepts_updates h = Some 0"
  shows "\<exists>w'. call ev c (h, w) = Some (h, w')"
proof (cases c)
  case (Add_entry fn m s1 s2 cm)
  then show ?thesis by (simp add: add_entry_gate [OF assms])
next
  case Begin_transaction
  then show ?thesis by (simp add: begin_gate [OF assms] handle_after_def)
next
  case Commit_transaction
  then show ?thesis by (simp add: commit_gate [OF assms] handle_after_def)
next
  case Rollback_transaction
  then show ?thesis by (simp add: rollback_gate [OF assms] handle_after_def)
qed simp_all

lemma calls_keep_handle:
  assumes "accepts_updates h = Some 0"
  shows "\<exists>w'. calls ev cs (h, w) = Some (h, w')"
proof (induction cs arbitrary: w)
  case Nil
  show ?case by simp
next
  case (Cons c cs)
  obtain w1 where "call ev c (h, w) = Some (h, w1)"
    using call_keeps_handle [OF assms] by blast
  with Cons.IH [of w1] show ?case by simp
qed

text \<open>
  C3 (as amended). On a handle whose \<^verbatim>\<open>accepts_updates()\<close> returns 0, each of
  \<^verbatim>\<open>tsk_hdb_add_entry\<close>, \<^verbatim>\<open>tsk_hdb_begin_transaction\<close>, \<^verbatim>\<open>tsk_hdb_commit_transaction\<close> and
  \<^verbatim>\<open>tsk_hdb_rollback_transaction\<close> returns 1 without calling a backend operation: the
  handle stays as it was and the world changes in its error state only (\<open>report\<close> writes
  nothing else). The error kind is \<open>TSK_ERR_HDB_PROC\<close> when the entry point's own function
  pointer is set, and \<open>TSK_ERR_HDB_ARG\<close> when it is \<^verbatim>\<open>NULL\<close>, which the entry point tests
  first. Hence every sequence of calls on such a handle runs to its end and leaves the
  handle as it was; \<open>transaction_in_progress\<close>, false at the start, is false in every
  state the handle reaches.
\<close>

theorem mutation_gate:
  assumes "accepts_updates h = Some 0"
  shows
    "tsk_hdb_add_entry ev (Some h) fn m s1 s2 c w =
       Some (1, case add_entry h of
                  None \<Rightarrow> report TSK_ERR_HDB_ARG ''tsk_hdb_add_entry: NULL add_entry function ptr'' w
                | Some f \<Rightarrow> report TSK_ERR_HDB_PROC
                              (not_supported ''tsk_hdb_add_entry'' (ev (db_type h))) w) \<and>
     tsk_hdb_begin_transaction ev (Some h) w =
       Some (1, Some h,
             case begin_transaction h of
               None \<Rightarrow> report TSK_ERR_HDB_ARG
                         ''tsk_hdb_begin_transaction: NULL begin_transaction function ptr'' w
             | Some f \<Rightarrow> report TSK_ERR_HDB_PROC
                           (not_supported ''tsk_hdb_begin_transaction'' (ev (db_type h))) w) \<and>
     tsk_hdb_commit_transaction ev (Some h) w =
       Some (1, Some h,
             case commit_transaction h of
               None \<Rightarrow> report TSK_ERR_HDB_ARG
                         ''tsk_hdb_commit_transaction: NULL commit_transaction function ptr'' w
             | Some f \<Rightarrow> report TSK_ERR_HDB_PROC
                           (not_supported ''tsk_hdb_commit_transaction'' (ev (db_type h))) w) \<and>
     tsk_hdb_rollback_transaction ev (Some h) w =
       Some (1, Some h,
             case rollback_transaction h of
               None \<Rightarrow> report TSK_ERR_HDB_ARG
                         ''tsk_hdb_rollback_transaction: NULL rollback_transaction function ptr'' w
             | Some f \<Rightarrow> report TSK_ERR_HDB_PROC
                           (not_supported ''tsk_hdb_rollback_transaction'' (ev (db_type h))) w) \<and>
     (\<exists>w'. calls ev cs (h, w) = Some (h, w')) \<and>
     (\<forall>h' w'. \<not> transaction_in_progress h \<and> calls ev cs (h, w) = Some (h', w')
        \<longrightarrow> \<not> transaction_in_progress h')"
proof -
  obtain w1 where "calls ev cs (h, w) = Some (h, w1)"
    using calls_keep_handle [OF assms] by blast
  then show ?thesis
    using add_entry_gate [OF assms] begin_gate [OF assms] commit_gate [OF assms]
      rollback_gate [OF assms]
    by simp
qed

theorem mutation_gate_witness:
  "accepts_updates ex_text_hdb = Some 0 \<and>
   \<not> transaction_in_progress ex_text_hdb \<and>
   tsk_hdb_add_entry ex_enum_value (Some ex_text_hdb)
       (Some ''empty'') (Some ''d41d8cd98f00b204e9800998ecf8427e'') None None None ex_world =
     Some (1, report TSK_ERR_HDB_PROC
                ''tsk_hdb_add_entry: operation not supported for this database type (=2)''
                ex_world) \<and>
   tsk_hdb_begin_transaction ex_enum_value (Some ex_text_hdb) ex_world =
     Some (1, Some ex_text_hdb,
           report TSK_ERR_HDB_PROC
             ''tsk_hdb_begin_transaction: operation not supported for this database type (=2)''
             ex_world) \<and>
   tsk_hdb_commit_transaction ex_enum_value (Some ex_text_hdb) ex_world =
     Some (1, Some ex_text_hdb,
           report TSK_ERR_HDB_PROC
             ''tsk_hdb_commit_transaction: operation not supported for this database type (=2)''
             ex_world) \<and>
   tsk_hdb_rollback_transaction ex_enum_value (Some ex_text_hdb) ex_world =
     Some (1, Some ex_text_hdb,
           report TSK_ERR_HDB_PROC
             ''tsk_hdb_rollback_transaction: operation not supported for this database type (=2)''
             ex_world) \<and>
   (\<exists>w'. calls ex_enum_value
            [Begin_transaction,
             Add_entry (Some ''empty'') (Some ''d41d8cd98f00b204e9800998ecf8427e'') None None None,
             Has_idx 1, Commit_transaction, Rollback_transaction]
            (ex_text_hdb, ex_world) = Some (ex_text_hdb, w'))"
proof -
  have a: "accepts_updates ex_text_hdb = Some 0"
    and t: "\<not> transaction_in_progress ex_text_hdb"
    and p: "add_entry ex_text_hdb \<noteq> None" "begin_transaction ex_text_hdb \<noteq> None"
      "commit_transaction ex_text_hdb \<noteq> None" "rollback_transaction ex_text_hdb \<noteq> None"
    and d: "db_type ex_text_hdb = TSK_HDB_DBTYPE_MD5SUM_ID"
    by (simp_all add: ex_text_hdb_def ex_hdb_def)
  have n: "\<And>f. not_supported f (ex_enum_value TSK_HDB_DBTYPE_MD5SUM_ID) =
      f @ '': operation not supported for this database type (=2)''"
    by (simp add: not_supported_def ex_enum_value_def fmt_u.simps char_of_def bit_iff_odd)
  show ?thesis
    using a t p
      mutation_gate [OF a, of ex_enum_value "Some ''empty''"
        "Some ''d41d8cd98f00b204e9800998ecf8427e''" None None None ex_world
        "[Begin_transaction,
          Add_entry (Some ''empty'') (Some ''d41d8cd98f00b204e9800998ecf8427e'') None None None,
          Has_idx 1, Commit_transaction, Rollback_transaction]"]
    by (auto simp add: d n)
qed

text \<open>
  C3 as it is written fails where the entry point's own function pointer is \<^verbatim>\<open>NULL\<close>: the
  backend takes no updates, and the error kind is \<open>TSK_ERR_HDB_ARG\<close>.
\<close>

theorem mutation_gate_counterexample:
  "accepts_updates (ex_text_hdb\<lparr>add_entry := None\<rparr>) = Some 0 \<and>
   tsk_hdb_add_entry ex_enum_value (Some (ex_text_hdb\<lparr>add_entry := None\<rparr>))
       (Some ''empty'') (Some ''d41d8cd98f00b204e9800998ecf8427e'') None None None ex_world =
     Some (1, ex_world\<lparr>t_errno := Some TSK_ERR_HDB_ARG,
                       errstr := ''tsk_hdb_add_entry: NULL add_entry function ptr''\<rparr>)"
  by (simp add: tsk_hdb_add_entry_def ex_text_hdb_def ex_hdb_def ex_world_def report_def
      tsk_error_reset_def tsk_error_set_errno_def tsk_error_set_errstr_def)

section \<open>Rollback\<close>

text \<open>
  Where a rollback is legal, \<^verbatim>\<open>tsk_hdb_rollback_transaction\<close> does what
  \<^verbatim>\<open>tsk_hdb_commit_transaction\<close> does.
\<close>

lemma rollback_is_commit:
  assumes "rollback_transaction h \<noteq> None" and "commit_transaction h \<noteq> None"
    and "accepts_updates h = Some a" and "a \<noteq> 0" and "transaction_in_progress h"
  shows "tsk_hdb_rollback_transaction ev (Some h) w = tsk_hdb_commit_transaction ev (Some h) w"
  using assms
  by (auto simp add: tsk_hdb_rollback_transaction_def tsk_hdb_commit_transaction_def)

text \<open>
  C2 (the code at the failing input). On the sample backend, which accepts updates and
  logs each backend function it runs, a rollback of the transaction in progress runs
  \<^verbatim>\<open>commit_transaction\<close> and never \<^verbatim>\<open>rollback_transaction\<close>; it clears the flag and returns 0.
  With \<^verbatim>\<open>commit_transaction\<close> unset and \<^verbatim>\<open>rollback_transaction\<close> set, the call goes through
  a \<^verbatim>\<open>NULL\<close> pointer.
\<close>

theorem rollback_calls_commit:
  "tsk_hdb_rollback_transaction ex_enum_value
      (Some (ex_hdb\<lparr>transaction_in_progress := True\<rparr>)) ex_world =
     Some (0, Some (ex_hdb\<lparr>transaction_in_progress := False\<rparr>),
           ex_world\<lparr>store := [''commit_transaction'']\<rparr>) \<and>
   tsk_hdb_rollback_transaction ex_enum_value
      (Some (ex_hdb\<lparr>transaction_in_progress := True, commit_transaction := None\<rparr>)) ex_world =
     None"
  by (simp add: tsk_hdb_rollback_transaction_def ex_hdb_def ex_log_def ex_world_def)

section \<open>Calls with a NULL handle\<close>

text \<open>
  C9 (the code at the failing input). With a \<^verbatim>\<open>NULL\<close> handle
  \<^verbatim>\<open>tsk_hdb_uses_external_indexes\<close> returns 0 and leaves exactly the error that
  \<^verbatim>\<open>tsk_hdb_get_display_name\<close> leaves: the message names that other operation, not its own.
\<close>

theorem uses_external_indexes_names_other_operation:
  "tsk_hdb_uses_external_indexes None w =
     (0, report TSK_ERR_HDB_ARG ''tsk_hdb_get_display_name: NULL hdb_info'' w) \<and>
   snd (tsk_hdb_uses_external_indexes None w) = snd (tsk_hdb_get_display_name None w) \<and>
   \<not> names_operation ''tsk_hdb_uses_external_indexes''
        (errstr (snd (tsk_hdb_uses_external_indexes None w)))"
  by (simp add: tsk_hdb_uses_external_indexes_def tsk_hdb_get_display_name_def
      names_operation_def report_fields)

text \<open>
  C10. With a \<^verbatim>\<open>NULL\<close> handle the four boolean queries return 0 and report an argument
  error. With a valid handle whose answer is "no" they return 0 as well, and the three
  that call no backend function with the world leave the world, its error state
  included, as it was: the returned value is the same in both cases.
\<close>

theorem null_handle_queries_return_zero:
  "tsk_hdb_uses_external_indexes None w =
     (0, report TSK_ERR_HDB_ARG ''tsk_hdb_get_display_name: NULL hdb_info'' w) \<and>
   tsk_hdb_has_idx None htype w = (0, report TSK_ERR_HDB_ARG ''tsk_hdb_has_idx: NULL hdb_info'' w) \<and>
   tsk_hdb_is_idx_only None w =
     (0, report TSK_ERR_HDB_ARG ''tsk_hdb_is_idx_only: NULL hdb_info'' w) \<and>
   tsk_hdb_accepts_updates None w =
     (0, report TSK_ERR_HDB_ARG ''tsk_hdb_accepts_updates: NULL hdb_info'' w) \<and>
   (uses_external_indexes h = 0 \<longrightarrow> tsk_hdb_uses_external_indexes (Some h) w = (0, w)) \<and>
   (fst (open_index h htype w) \<noteq> 0 \<longrightarrow>
      tsk_hdb_has_idx (Some h) htype w = (0, snd (open_index h htype w))) \<and>
   (db_type h \<noteq> TSK_HDB_DBTYPE_IDXONLY_ID \<longrightarrow> tsk_hdb_is_idx_only (Some h) w = (0, w)) \<and>
   (accepts_updates h = Some 0 \<longrightarrow> tsk_hdb_accepts_updates (Some h) w = (0, w))"
  by (simp add: tsk_hdb_uses_external_indexes_def tsk_hdb_has_idx_def tsk_hdb_is_idx_only_def
      tsk_hdb_accepts_updates_def case_prod_beta)

theorem null_handle_queries_return_zero_witness:
  "fst (tsk_hdb_uses_external_indexes None ex_world) = 0 \<and>
   t_errno (snd (tsk_hdb_uses_external_indexes None ex_world)) = Some TSK_ERR_HDB_ARG \<and>
   fst (tsk_hdb_has_idx None 1 ex_world) = 0 \<and>
   t_errno (snd (tsk_hdb_has_idx None 1 ex_world)) = Some TSK_ERR_HDB_ARG \<and>
   fst (tsk_hdb_is_idx_only None ex_world) = 0 \<and>
   t_errno (snd (tsk_hdb_is_idx_only None ex_world)) = Some TSK_ERR_HDB_ARG \<and>
   fst (tsk_hdb_accepts_updates None ex_world) = 0 \<and>
   t_errno (snd (tsk_hdb_accepts_updates None ex_world)) = Some TSK_ERR_HDB_ARG \<and>
   uses_external_indexes ex_hdb = 0 \<and>
   tsk_hdb_uses_external_indexes (Some ex_hdb) ex_world = (0, ex_world) \<and>
   fst (open_index ex_text_hdb 1 ex_world) \<noteq> 0 \<and>
   fst (tsk_hdb_has_idx (Some ex_text_hdb) 1 ex_world) = 0 \<and>
   db_type ex_text_hdb \<noteq> TSK_HDB_DBTYPE_IDXONLY_ID \<and>
   tsk_hdb_is_idx_only (Some ex_text_hdb) ex_world = (0, ex_world) \<and>
   accepts_updates ex_text_hdb = Some 0 \<and>
   tsk_hdb_accepts_updates (Some ex_text_hdb) ex_world = (0, ex_world)"
proof -
  have h: "uses_external_indexes ex_hdb = 0"
    "fst (open_index ex_text_hdb 1 ex_world) \<noteq> 0"
    "db_type ex_text_hdb \<noteq> TSK_HDB_DBTYPE_IDXONLY_ID"
    "accepts_updates ex_text_hdb = Some 0"
    by (simp_all add: ex_hdb_def ex_text_hdb_def ex_log_def)
  show ?thesis
    using h null_handle_queries_return_zero [of ex_world 1 ex_hdb]
      null_handle_queries_return_zero [of ex_world 1 ex_text_hdb]
    by (simp add: report_fields)
qed

section \<open>The database path\<close>

lemma TSTRCMP_eq_0 [simp]: "TSTRCMP a b = 0 \<longleftrightarrow> a = b"
  by (induction a b rule: TSTRCMP.induct) auto

lemma TSTRRCHR_append:
  "TSTRRCHR (p @ s) c =
     (case TSTRRCHR s c of Some i \<Rightarrow> Some (length p + i) | None \<Rightarrow> TSTRRCHR p c)"
  by (induction p) (auto split: option.split)

lemma TSTRRCHR_suffix:
  assumes "TSTRRCHR sfx c = Some 0"
  shows "TSTRRCHR (p @ sfx) c = Some (length p)"
  using assms by (simp add: TSTRRCHR_append)

lemma md5_idx_rchr: "TSTRRCHR ''-md5.idx'' (CHR ''-'') = Some 0"
  by simp

lemma sha1_idx_rchr: "TSTRRCHR ''-sha1.idx'' (CHR ''-'') = Some 0"
  by simp

lemma ends_with_iff: "ends_with sfx path \<longleftrightarrow> (\<exists>p. path = p @ sfx)"
proof
  assume "ends_with sfx path"
  then have "path = take (length path - length sfx) path @ sfx"
    by (metis append_take_drop_id ends_with_def)
  then show "\<exists>p. path = p @ sfx" ..
next
  assume "\<exists>p. path = p @ sfx"
  then show "ends_with sfx path"
    by (auto simp add: ends_with_def)
qed

text \<open>
  What the copy leaves in a zero-filled block of \<open>length file_path + 1\<close> characters: the
  first \<open>n\<close> characters of the path, as a C string.
\<close>

lemma cstr_copy:
  assumes "NUL \<notin> set file_path" and "n \<le> length file_path"
  shows "cstr (TSTRNCPY (replicate (length file_path + 1) NUL) file_path n) = take n file_path"
proof -
  have "drop n (replicate (length file_path + 1) NUL) =
      replicate (length file_path + 1 - n) NUL"
    by (simp only: drop_replicate)
  also have "length file_path + 1 - n = Suc (length file_path - n)"
    using assms(2) by simp
  finally have "drop n (replicate (length file_path + 1) NUL) =
      NUL # replicate (length file_path - n) NUL"
    by simp
  then have "TSTRNCPY (replicate (length file_path + 1) NUL) file_path n =
      take n file_path @ NUL # replicate (length file_path - n) NUL"
    using assms(2) by (simp only: TSTRNCPY_def) simp
  moreover have "\<forall>c \<in> set (take n file_path). c \<noteq> NUL"
    using assms(1) by (metis in_set_takeD)
  ultimately show ?thesis
    by (simp add: cstr_def takeWhile_tail)
qed

lemma open_db_path_md5:
  "tsk_hdb_open_db_path (p @ ''-md5.idx'') buf =
     (True, TSTRNCPY buf (p @ ''-md5.idx'') (length p))"
  by (simp add: tsk_hdb_open_db_path_def TSTRRCHR_suffix [OF md5_idx_rchr] TSTRLEN_def
      TSTRCMP_eq_0)

lemma open_db_path_sha1:
  "tsk_hdb_open_db_path (p @ ''-sha1.idx'') buf =
     (True, TSTRNCPY buf (p @ ''-sha1.idx'') (length p))"
  by (simp add: tsk_hdb_open_db_path_def TSTRRCHR_suffix [OF sha1_idx_rchr] TSTRLEN_def
      TSTRCMP_eq_0)

lemma open_db_path_other:
  assumes "\<not> ends_with ''-md5.idx'' file_path" and "\<not> ends_with ''-sha1.idx'' file_path"
  shows "tsk_hdb_open_db_path file_path buf =
     (False, TSTRNCPY buf file_path (length file_path))"
proof (cases "TSTRRCHR file_path (CHR ''-'')")
  case None
  then show ?thesis by (simp add: tsk_hdb_open_db_path_def TSTRLEN_def)
next
  case (Some i)
  have "file_path = take i file_path @ drop i file_path"
    by simp
  then have "drop i file_path \<noteq> ''-md5.idx''" and "drop i file_path \<noteq> ''-sha1.idx''"
    using assms by (metis ends_with_iff)+
  with Some show ?thesis
    by (simp add: tsk_hdb_open_db_path_def TSTRLEN_def Let_def TSTRCMP_eq_0)
qed

lemma is_idx_path_iff:
  "is_idx_path file_path \<longleftrightarrow>
     ends_with ''-md5.idx'' file_path \<or> ends_with ''-sha1.idx'' file_path"
proof (cases "ends_with ''-md5.idx'' file_path \<or> ends_with ''-sha1.idx'' file_path")
  case True
  then obtain p where "file_path = p @ ''-md5.idx'' \<or> file_path = p @ ''-sha1.idx''"
    by (auto simp add: ends_with_iff)
  with True show ?thesis
    by (auto simp add: is_idx_path_def open_db_path_md5 open_db_path_sha1)
next
  case False
  then show ?thesis
    by (simp add: is_idx_path_def open_db_path_other)
qed

text \<open>
  \<^verbatim>\<open>tsk_hdb_open\<close> on a path, once the block is allocated: \<open>db_path_of\<close> and
  \<open>is_idx_path\<close> are the path and the flag the rest of the function works with.
\<close>

lemma tsk_hdb_open_Some:
  assumes "memory_left E"
  shows "tsk_hdb_open E (Some file_path) flags w =
     tsk_hdb_open_type E file_path (is_idx_path file_path) (db_path_of file_path) flags
       (w\<lparr>blocks := Suc (blocks w)\<rparr>)"
  using assms
  by (simp only: tsk_hdb_open_def tsk_malloc_def db_path_of_def is_idx_path_def Let_def
      case_prod_beta if_True option.case prod.case fst_conv snd_conv)

lemma free_report_alloc [simp]:
  "free (report e s (w\<lparr>blocks := Suc (blocks w)\<rparr>)) = report e s w"
  by (simp add: free_def report_def tsk_error_reset_def tsk_error_set_errno_def
      tsk_error_set_errstr_def)

lemma db_path_of_md5:
  assumes "NUL \<notin> set p"
  shows "db_path_of (p @ ''-md5.idx'') = p"
proof -
  have n: "NUL \<notin> set (p @ ''-md5.idx'')"
    using assms by (simp add: NUL_def)
  have "db_path_of (p @ ''-md5.idx'') =
      cstr (TSTRNCPY (replicate (length (p @ ''-md5.idx'') + 1) NUL) (p @ ''-md5.idx'') (length p))"
    by (simp only: db_path_of_def TSTRLEN_def open_db_path_md5 snd_conv)
  also have "\<dots> = take (length p) (p @ ''-md5.idx'')"
    using n by (rule cstr_copy) simp
  finally show ?thesis by simp
qed

lemma db_path_of_sha1:
  assumes "NUL \<notin> set p"
  shows "db_path_of (p @ ''-sha1.idx'') = p"
proof -
  have n: "NUL \<notin> set (p @ ''-sha1.idx'')"
    using assms by (simp add: NUL_def)
  have "db_path_of (p @ ''-sha1.idx'') =
      cstr (TSTRNCPY (replicate (length (p @ ''-sha1.idx'') + 1) NUL) (p @ ''-sha1.idx'') (length p))"
    by (simp only: db_path_of_def TSTRLEN_def open_db_path_sha1 snd_conv)
  also have "\<dots> = take (length p) (p @ ''-sha1.idx'')"
    using n by (rule cstr_copy) simp
  finally show ?thesis by simp
qed

lemma db_path_of_other:
  assumes "NUL \<notin> set file_path"
    and "\<not> ends_with ''-md5.idx'' file_path" and "\<not> ends_with ''-sha1.idx'' file_path"
  shows "db_path_of file_path = file_path"
proof -
  have "db_path_of file_path =
      cstr (TSTRNCPY (replicate (length file_path + 1) NUL) file_path (length file_path))"
    by (simp only: db_path_of_def TSTRLEN_def open_db_path_other [OF assms(2,3)] snd_conv)
  also have "\<dots> = take (length file_path) file_path"
    using assms(1) by (rule cstr_copy) simp
  finally show ?thesis by simp
qed

text \<open>
  C5. For a path that is a C string (it holds no NUL): if it is \<open>p\<close> followed by
  \<^verbatim>\<open>-md5.idx\<close> or by \<^verbatim>\<open>-sha1.idx\<close>, the database path \<^verbatim>\<open>tsk_hdb_open\<close> resolves is \<open>p\<close>; if it
  ends in neither, the database path is the path itself.
\<close>

theorem db_path_strips_index_suffix:
  assumes "NUL \<notin> set file_path"
  shows
    "(file_path = p @ ''-md5.idx'' \<or> file_path = p @ ''-sha1.idx'' \<longrightarrow>
        db_path_of file_path = p) \<and>
     (\<not> ends_with ''-md5.idx'' file_path \<and> \<not> ends_with ''-sha1.idx'' file_path \<longrightarrow>
        db_path_of file_path = file_path)"
proof (intro conjI impI)
  assume "file_path = p @ ''-md5.idx'' \<or> file_path = p @ ''-sha1.idx''"
  then show "db_path_of file_path = p"
  proof
    assume e: "file_path = p @ ''-md5.idx''"
    with assms have "NUL \<notin> set p" by simp
    then show ?thesis unfolding e by (rule db_path_of_md5)
  next
    assume e: "file_path = p @ ''-sha1.idx''"
    with assms have "NUL \<notin> set p" by simp
    then show ?thesis unfolding e by (rule db_path_of_sha1)
  qed
next
  assume "\<not> ends_with ''-md5.idx'' file_path \<and> \<not> ends_with ''-sha1.idx'' file_path"
  with assms show "db_path_of file_path = file_path"
    by (simp add: db_path_of_other)
qed

theorem db_path_strips_index_suffix_witness:
  "NUL \<notin> set ''gone-md5.idx'' \<and> db_path_of ''gone-md5.idx'' = ''gone'' \<and>
   NUL \<notin> set ''nsrl/NSRLFile-v2.txt-sha1.idx'' \<and>
   db_path_of ''nsrl/NSRLFile-v2.txt-sha1.idx'' = ''nsrl/NSRLFile-v2.txt'' \<and>
   NUL \<notin> set ''set-md5.idx.bak'' \<and>
   \<not> ends_with ''-md5.idx'' ''set-md5.idx.bak'' \<and>
   \<not> ends_with ''-sha1.idx'' ''set-md5.idx.bak'' \<and>
   db_path_of ''set-md5.idx.bak'' = ''set-md5.idx.bak''"
proof -
  have n: "NUL \<notin> set ''gone-md5.idx''" "NUL \<notin> set ''nsrl/NSRLFile-v2.txt-sha1.idx''"
    "NUL \<notin> set ''set-md5.idx.bak''"
    by (simp_all add: NUL_def)
  have e: "\<not> ends_with ''-md5.idx'' ''set-md5.idx.bak''"
    "\<not> ends_with ''-sha1.idx'' ''set-md5.idx.bak''"
    by (simp_all add: ends_with_def)
  show ?thesis
    using n e
      db_path_strips_index_suffix [OF n(1), of "''gone''"]
      db_path_strips_index_suffix [OF n(2), of "''nsrl/NSRLFile-v2.txt''"]
      db_path_strips_index_suffix [OF n(3), of "[]"]
    by simp
qed

section \<open>Opening a database whose file is gone\<close>

lemma fclose_open [simp]:
  "fclose \<lparr>name = p, contents = c, pos = k\<rparr> (w\<lparr>streams := p # streams w\<rparr>) = w"
  by (simp add: fclose_def)

text \<open>
  C6. When the index-only flag is clear and the database path cannot be opened,
  \<^verbatim>\<open>tsk_hdb_open\<close> hands the database path to \<^verbatim>\<open>idxonly_open\<close> (and returns what that
  constructor returns, after freeing the path) exactly when the given path ends in
  \<^verbatim>\<open>-md5.idx\<close> or \<^verbatim>\<open>-sha1.idx\<close> and the given path itself opens; the index stream it
  opened for the test is closed again. Otherwise it returns \<^verbatim>\<open>NULL\<close> and reports
  \<open>TSK_ERR_HDB_OPEN\<close>, with nothing else of the world changed: no constructor has run.
\<close>

theorem index_only_fallback:
  assumes "memory_left E" and "flags AND TSK_HDB_OPEN_IDXONLY E = 0"
    and "files E (db_path_of file_path) = None"
  shows "tsk_hdb_open E (Some file_path) flags w =
     (if (ends_with ''-md5.idx'' file_path \<or> ends_with ''-sha1.idx'' file_path) \<and>
         files E file_path \<noteq> None
      then (let (hdb_info, w') =
                  idxonly_open E (db_path_of file_path) (w\<lparr>blocks := Suc (blocks w)\<rparr>)
            in (hdb_info, free w'))
      else (None,
            report TSK_ERR_HDB_OPEN
              (if ends_with ''-md5.idx'' file_path \<or> ends_with ''-sha1.idx'' file_path
               then ''tsk_hdb_open: database is index only, failed to open index '' @
                    db_path_of file_path
               else ''tsk_hdb_open: failed to open '' @ db_path_of file_path) w))"
proof (cases "is_idx_path file_path")
  case False
  with assms show ?thesis
    by (simp add: tsk_hdb_open_Some tsk_hdb_open_type_def hdb_open_file_def
        is_idx_path_iff [symmetric] free_report_alloc)
next
  case True
  show ?thesis
  proof (cases "files E file_path")
    case None
    with True assms show ?thesis
      by (simp add: tsk_hdb_open_Some tsk_hdb_open_type_def tsk_hdb_open_switch_def
          hdb_open_file_def is_idx_path_iff [symmetric] free_report_alloc fclose_open)
  next
    case (Some c)
    with True assms show ?thesis
      by (simp add: tsk_hdb_open_Some tsk_hdb_open_type_def tsk_hdb_open_switch_def
          hdb_open_file_def is_idx_path_iff [symmetric] free_report_alloc fclose_open)
  qed
qed

lemma ex_db_paths:
  "db_path_of ''gone-md5.idx'' = ''gone''"
  "db_path_of ''lost-sha1.idx'' = ''lost''"
  "db_path_of ''missing.txt'' = ''missing.txt''"
  "db_path_of ''notes.txt'' = ''notes.txt''"
  using db_path_of_md5 [of "''gone''"] db_path_of_sha1 [of "''lost''"]
    db_path_of_other [of "''missing.txt''"] db_path_of_other [of "''notes.txt''"]
  by (simp_all add: NUL_def ends_with_def)

theorem index_only_fallback_witness:
  "memory_left ex_env \<and>
   0 AND TSK_HDB_OPEN_IDXONLY ex_env = 0 \<and>
   files ex_env (db_path_of ''gone-md5.idx'') = None \<and>
   files ex_env ''gone-md5.idx'' \<noteq> None \<and>
   tsk_hdb_open ex_env (Some ''gone-md5.idx'') 0 ex_world =
     (Some (ex_text_hdb\<lparr>db_type := TSK_HDB_DBTYPE_IDXONLY_ID\<rparr>),
      ex_world\<lparr>store := [''idxonly_open gone'']\<rparr>) \<and>
   files ex_env (db_path_of ''lost-sha1.idx'') = None \<and>
   files ex_env ''lost-sha1.idx'' = None \<and>
   tsk_hdb_open ex_env (Some ''lost-sha1.idx'') 0 ex_world =
     (None,
      report TSK_ERR_HDB_OPEN
        ''tsk_hdb_open: database is index only, failed to open index lost'' ex_world) \<and>
   files ex_env (db_path_of ''missing.txt'') = None \<and>
   tsk_hdb_open ex_env (Some ''missing.txt'') 0 ex_world =
     (None, report TSK_ERR_HDB_OPEN ''tsk_hdb_open: failed to open missing.txt'' ex_world)"
proof -
  have m: "memory_left ex_env" and f: "0 AND TSK_HDB_OPEN_IDXONLY ex_env = 0"
    by (simp_all add: ex_env_def)
  have g: "files ex_env (db_path_of ''gone-md5.idx'') = None"
    "files ex_env (db_path_of ''lost-sha1.idx'') = None"
    "files ex_env (db_path_of ''missing.txt'') = None"
    by (simp_all add: ex_db_paths ex_env_def ex_files_def)
  have i: "files ex_env ''gone-md5.idx'' \<noteq> None" "files ex_env ''lost-sha1.idx'' = None"
    by (simp_all add: ex_env_def ex_files_def)
  have e: "ends_with ''-md5.idx'' ''gone-md5.idx''" "ends_with ''-sha1.idx'' ''lost-sha1.idx''"
    "\<not> ends_with ''-md5.idx'' ''missing.txt''" "\<not> ends_with ''-sha1.idx'' ''missing.txt''"
    by (simp_all add: ends_with_def)
  have o: "idxonly_open ex_env ''gone'' w =
      (Some (ex_text_hdb\<lparr>db_type := TSK_HDB_DBTYPE_IDXONLY_ID\<rparr>),
       w\<lparr>store := store w @ [''idxonly_open gone'']\<rparr>)" for w
    by (simp add: ex_env_def ex_open_def ex_log_def)
  show ?thesis
    using m f g i
      index_only_fallback [OF m f g(1), of ex_world]
      index_only_fallback [OF m f g(2), of ex_world]
      index_only_fallback [OF m f g(3), of ex_world]
    by (simp add: e ex_db_paths o free_def ex_world_def)
qed

section \<open>A failed open and the stream it opened\<close>

text \<open>
  When the database file opens and its type cannot be determined, \<^verbatim>\<open>tsk_hdb_open\<close>
  frees the path and returns \<^verbatim>\<open>NULL\<close>; the stream it opened on the file stays open.
\<close>

lemma unknown_type_leaves_stream_open:
  assumes "memory_left E" and "flags AND TSK_HDB_OPEN_IDXONLY E = 0"
    and "files E (db_path_of file_path) = Some c"
    and "fst (hdb_determine_db_type E
           \<lparr>name = db_path_of file_path, contents = c, pos = 0\<rparr> (db_path_of file_path)) =
         TSK_HDB_DBTYPE_INVALID_ID"
  shows "tsk_hdb_open E (Some file_path) flags w =
     (None,
      report TSK_ERR_HDB_UNKTYPE
        (''tsk_hdb_open: error determining hash database type of '' @ db_path_of file_path)
        (w\<lparr>streams := db_path_of file_path # streams w\<rparr>))"
  using assms
  by (simp add: tsk_hdb_open_Some tsk_hdb_open_type_def hdb_open_file_def case_prod_beta
      free_def report_def tsk_error_reset_def tsk_error_set_errno_def tsk_error_set_errstr_def)

text \<open>
  C8 (the code at the failing input). \<^verbatim>\<open>notes.txt\<close> exists and no format test accepts
  it. \<^verbatim>\<open>tsk_hdb_open\<close> returns \<^verbatim>\<open>NULL\<close> with the unknown-type error and the path buffer
  freed (no block is live), and the stream on \<^verbatim>\<open>notes.txt\<close> is still open.
\<close>

theorem failed_open_leaves_stream_open:
  "tsk_hdb_open ex_env (Some ''notes.txt'') 0 ex_world =
     (None,
      ex_world\<lparr>t_errno := Some TSK_ERR_HDB_UNKTYPE,
               errstr := ''tsk_hdb_open: error determining hash database type of notes.txt'',
               streams := [''notes.txt'']\<rparr>) \<and>
   streams ex_world = [] \<and> blocks ex_world = 0"
proof -
  have m: "memory_left ex_env" and f: "0 AND TSK_HDB_OPEN_IDXONLY ex_env = 0"
    by (simp_all add: ex_env_def)
  have c: "files ex_env (db_path_of ''notes.txt'') = Some ''hello''"
    by (simp add: ex_db_paths ex_env_def ex_files_def)
  have t: "fst (hdb_determine_db_type ex_env
      \<lparr>name = db_path_of ''notes.txt'', contents = ''hello'', pos = 0\<rparr>
      (db_path_of ''notes.txt'')) = TSK_HDB_DBTYPE_INVALID_ID"
    by (simp add: ex_db_paths hdb_determine_db_type_def run_test_def fseeko_def ex_env_def
        has_at_def)
  show ?thesis
    using unknown_type_leaves_stream_open [OF m f c t, of ex_world]
    by (simp add: ex_db_paths ex_world_def report_def tsk_error_reset_def
        tsk_error_set_errno_def tsk_error_set_errstr_def)
qed

end
